theory Spec2Isabelle
  imports Complex_Main "HOL-Library.Sublist"
begin

section \<open>Python strings\<close>

text \<open>
  A Python \<^verbatim>\<open>str\<close> is a sequence of code points. The model uses \<^typ>\<open>string\<close>, whose
  characters are the code points 0 to 255 (Latin-1); the classifications below are the ones
  Python gives to these code points.
\<close>

datatype py_error = IndexError | JSONDecodeError | NameError | UnicodeEncodeError | OverflowError

definition py_isspace :: "char \<Rightarrow> bool" where
  \<comment> \<open>\<^verbatim>\<open>str.isspace\<close> on one code point: TAB..CR, FS..US, space, NEL, NBSP\<close>
  "py_isspace c =
     (let n = (of_char c :: nat)
      in (9 \<le> n \<and> n \<le> 13) \<or> (28 \<le> n \<and> n \<le> 32) \<or> n = 133 \<or> n = 160)"

definition py_lower_char :: "char \<Rightarrow> char" where
  \<comment> \<open>A..Z and the Latin-1 capitals (all of 192..222 but the multiplication sign) move up by 32\<close>
  "py_lower_char c =
     (let n = (of_char c :: nat)
      in if (65 \<le> n \<and> n \<le> 90) \<or> (192 \<le> n \<and> n \<le> 222 \<and> n \<noteq> 215)
         then char_of (n + 32) else c)"

definition py_lower :: "string \<Rightarrow> string" where
  "py_lower s = map py_lower_char s"

definition py_lstrip :: "string \<Rightarrow> string" where
  "py_lstrip s = dropWhile py_isspace s"

definition py_rstrip :: "string \<Rightarrow> string" where
  "py_rstrip s = rev (dropWhile py_isspace (rev s))"

definition py_strip :: "string \<Rightarrow> string" where
  \<comment> \<open>\<^verbatim>\<open>s.strip()\<close>\<close>
  "py_strip s = py_rstrip (py_lstrip s)"

fun py_split_aux :: "string \<Rightarrow> string \<Rightarrow> string list" where
  "py_split_aux acc [] = (if acc = [] then [] else [acc])"
| "py_split_aux acc (c # cs) =
     (if py_isspace c
      then (if acc = [] then py_split_aux [] cs else acc # py_split_aux [] cs)
      else py_split_aux (acc @ [c]) cs)"

definition py_split :: "string \<Rightarrow> string list" where
  \<comment> \<open>\<^verbatim>\<open>s.split()\<close>: the maximal runs of non-whitespace\<close>
  "py_split s = py_split_aux [] s"

section \<open>Nutrition estimator\<close>

text \<open>
  The quantities are Python floats in the source. The model computes with exact rationals:
  the table's decimal literals are the rationals they denote, and \<^verbatim>\<open>round(x, 1)\<close> rounds
  to the nearest tenth, a tie going to the even tenth.
\<close>

record macros =
  cal :: rat
  protein :: rat
  fat :: rat
  carb :: rat

definition NUTRITION_DB :: "(string \<times> macros) list" where
  "NUTRITION_DB =
    [(''chicken'',  \<lparr>cal = 165, protein = 31,    fat = 36/10, carb = 0\<rparr>),
     (''rice'',     \<lparr>cal = 130, protein = 24/10, fat = 2/10,  carb = 28\<rparr>),
     (''pasta'',    \<lparr>cal = 131, protein = 5,     fat = 11/10, carb = 25\<rparr>),
     (''tomato'',   \<lparr>cal = 18,  protein = 9/10,  fat = 2/10,  carb = 39/10\<rparr>),
     (''onion'',    \<lparr>cal = 40,  protein = 11/10, fat = 1/10,  carb = 93/10\<rparr>),
     (''potato'',   \<lparr>cal = 77,  protein = 2,     fat = 1/10,  carb = 17\<rparr>),
     (''cheese'',   \<lparr>cal = 402, protein = 25,    fat = 33,    carb = 13/10\<rparr>),
     (''egg'',      \<lparr>cal = 155, protein = 13,    fat = 11,    carb = 11/10\<rparr>),
     (''milk'',     \<lparr>cal = 42,  protein = 34/10, fat = 1,     carb = 5\<rparr>),
     (''butter'',   \<lparr>cal = 717, protein = 9/10,  fat = 81,    carb = 1/10\<rparr>),
     (''broccoli'', \<lparr>cal = 34,  protein = 28/10, fat = 4/10,  carb = 7\<rparr>),
     (''quinoa'',   \<lparr>cal = 120, protein = 44/10, fat = 19/10, carb = 21\<rparr>),
     (''beans'',    \<lparr>cal = 347, protein = 21,    fat = 12/10, carb = 63\<rparr>),
     (''avocado'',  \<lparr>cal = 160, protein = 2,     fat = 15,    carb = 9\<rparr>)]"

definition default_macros :: macros where
  \<comment> \<open>the \<^verbatim>\<open>else\<close> branch: unknown ingredient\<close>
  "default_macros = \<lparr>cal = 20, protein = 5/10, fat = 1/10, carb = 1\<rparr>"

definition add_macros :: "macros \<Rightarrow> macros \<Rightarrow> macros" where
  "add_macros t d =
     \<lparr>cal = cal t + cal d, protein = protein t + protein d,
      fat = fat t + fat d, carb = carb t + carb d\<rparr>"

definition zero_macros :: macros where
  "zero_macros = \<lparr>cal = 0, protein = 0, fat = 0, carb = 0\<rparr>"

definition ingredient_key :: "string \<Rightarrow> py_error + string" where
  \<comment> \<open>\<^verbatim>\<open>ing.strip().lower().split()[0]\<close>; indexing an empty list raises\<close>
  "ingredient_key ing =
     (case py_split (py_lower (py_strip ing)) of
        [] \<Rightarrow> Inl IndexError
      | k # _ \<Rightarrow> Inr k)"

definition table_or_default :: "string \<Rightarrow> macros" where
  \<comment> \<open>\<^verbatim>\<open>if key in NUTRITION_DB\<close>: the entry; \<^verbatim>\<open>else\<close>: the small default values\<close>
  "table_or_default k =
     (case map_of NUTRITION_DB k of Some d \<Rightarrow> d | None \<Rightarrow> default_macros)"

definition contribution :: "string \<Rightarrow> py_error + macros" where
  \<comment> \<open>what one pass of the loop body adds to the totals\<close>
  "contribution ing =
     (case ingredient_key ing of
        Inl e \<Rightarrow> Inl e
      | Inr k \<Rightarrow> Inr (table_or_default k))"

fun sum_ingredients :: "macros \<Rightarrow> string list \<Rightarrow> py_error + macros" where
  "sum_ingredients totals [] = Inr totals"
| "sum_ingredients totals (ing # ings) =
     (case contribution ing of
        Inl e \<Rightarrow> Inl e
      | Inr d \<Rightarrow> sum_ingredients (add_macros totals d) ings)"

definition round_half_even :: "rat \<Rightarrow> int" where
  "round_half_even q =
     (let f = \<lfloor>q\<rfloor>; d = q - of_int f
      in if d < 1/2 then f
         else if 1/2 < d then f + 1
         else if even f then f else f + 1)"

definition py_round1 :: "rat \<Rightarrow> rat" where
  \<comment> \<open>\<^verbatim>\<open>round(x, 1)\<close>\<close>
  "py_round1 x = of_int (round_half_even (x * 10)) / 10"

definition per_serving :: "macros \<Rightarrow> int \<Rightarrow> macros" where
  \<comment> \<open>\<^verbatim>\<open>{k: round(v / max(1, servings), 1) for k, v in total.items()}\<close>\<close>
  "per_serving totals servings =
     (let n = of_int (max 1 servings)
      in \<lparr>cal = py_round1 (cal totals / n), protein = py_round1 (protein totals / n),
          fat = py_round1 (fat totals / n), carb = py_round1 (carb totals / n)\<rparr>)"

definition estimate_nutrition :: "string list \<Rightarrow> int \<Rightarrow> py_error + macros" where
  "estimate_nutrition ingredients_list servings =
     (case sum_ingredients zero_macros ingredients_list of
        Inl e \<Rightarrow> Inl e
      | Inr totals \<Rightarrow> Inr (per_serving totals servings))"

section \<open>Recipe store\<close>

text \<open>
  The state is the file \<^verbatim>\<open>data/saved_recipes.json\<close>: \<open>None\<close> while it does not exist,
  otherwise its content. \<^verbatim>\<open>json.loads\<close> (after the decoding of \<^verbatim>\<open>read_text\<close>),
  \<^verbatim>\<open>json.dumps\<close> and the encoding of the text to be written belong to the Python library; they
  are the parameters \<open>loads\<close>, \<open>dumps\<close> and \<open>encode\<close>. An operation returns its outcome and
  the file it leaves behind; an exception leaves the file as it was when it was raised.
\<close>

type_synonym 'b store_file = "'b list option"

definition load_saved_recipes ::
  "('b list \<Rightarrow> py_error + 'r list) \<Rightarrow> 'b store_file \<Rightarrow> py_error + 'r list" where
  "load_saved_recipes loads f = (case f of Some doc \<Rightarrow> loads doc | None \<Rightarrow> Inr [])"

definition write_text ::
  "('t \<Rightarrow> py_error + 'b list) \<Rightarrow> 't \<Rightarrow> 'b store_file \<Rightarrow> (py_error + unit) \<times> 'b store_file" where
  \<comment> \<open>\<^verbatim>\<open>Path.write_text\<close> opens the file for writing, which empties or creates it, and then
      writes the encoded text; when the text cannot be encoded the file stays empty\<close>
  "write_text encode data f =
     (case encode data of
        Inl e \<Rightarrow> (Inl e, Some [])
      | Inr doc \<Rightarrow> (Inr (), Some doc))"

definition save_all_recipes ::
  "('r list \<Rightarrow> 't) \<Rightarrow> ('t \<Rightarrow> py_error + 'b list) \<Rightarrow> 'r list \<Rightarrow> 'b store_file
     \<Rightarrow> (py_error + unit) \<times> 'b store_file" where
  "save_all_recipes dumps encode recipes f = write_text encode (dumps recipes) f"

definition py_pop :: "'a list \<Rightarrow> nat \<Rightarrow> 'a list" where
  \<comment> \<open>the list after \<^verbatim>\<open>xs.pop(i)\<close>, for an index in range\<close>
  "py_pop xs i = take i xs @ drop (Suc i) xs"

definition add_recipe ::
  "('b list \<Rightarrow> py_error + 'r list) \<Rightarrow> ('r list \<Rightarrow> 't) \<Rightarrow> ('t \<Rightarrow> py_error + 'b list) \<Rightarrow> 'r
     \<Rightarrow> 'b store_file \<Rightarrow> (py_error + unit) \<times> 'b store_file" where
  "add_recipe loads dumps encode recipe_obj f =
     (case load_saved_recipes loads f of
        Inl e \<Rightarrow> (Inl e, f)
      | Inr recipes \<Rightarrow> save_all_recipes dumps encode (recipe_obj # recipes) f)"

definition delete_recipe ::
  "('b list \<Rightarrow> py_error + 'r list) \<Rightarrow> ('r list \<Rightarrow> 't) \<Rightarrow> ('t \<Rightarrow> py_error + 'b list) \<Rightarrow> int
     \<Rightarrow> 'b store_file \<Rightarrow> (py_error + unit) \<times> 'b store_file" where
  "delete_recipe loads dumps encode index f =
     (case load_saved_recipes loads f of
        Inl e \<Rightarrow> (Inl e, f)
      | Inr recipes \<Rightarrow>
          if 0 \<le> index \<and> index < int (length recipes)
          then save_all_recipes dumps encode (py_pop recipes (nat index)) f
          else (Inr (), f))"



text \<open>
  Two small serialisers for the examples. The first writes a document of bits, one character
  each. The second writes a list of texts between brackets, each text followed by a line
  feed, every character as it is, which is what \<^verbatim>\<open>json.dumps\<close> does to a character when
  \<^verbatim>\<open>ensure_ascii\<close> is off; its reader takes ASCII only, and the tilde for an escaped lone
  surrogate, as \<^verbatim>\<open>json.loads\<close> takes the escape of U+D800.
\<close>

definition bits_dumps :: "bool list \<Rightarrow> string" where
  "bits_dumps bs = map (\<lambda>b. if b then CHR ''1'' else CHR ''0'') bs"

definition bits_loads :: "string \<Rightarrow> py_error + bool list" where
  "bits_loads s =
     (if list_all (\<lambda>c. c = CHR ''0'' \<or> c = CHR ''1'') s
      then Inr (map (\<lambda>c. c = CHR ''1'') s) else Inl JSONDecodeError)"




section \<open>PDF generator\<close>

text \<open>
  The canvas of the PDF library is modelled by what it has drawn: the pages already closed
  and the operations on the page being drawn. \<^verbatim>\<open>showPage\<close> closes the page and starts an
  empty one; \<^verbatim>\<open>save\<close> closes the page being drawn when something is on it. The result
  is the list of pages of the document. The page is US letter, 612 by 792 points, and the
  cursor takes whole values only.
\<close>

datatype draw = SetFont string nat | DrawString int int string

record canvas =
  pages :: "draw list list"
  code :: "draw list"

definition new_canvas :: canvas where
  "new_canvas = \<lparr>pages = [], code = []\<rparr>"

definition setFont :: "canvas \<Rightarrow> string \<Rightarrow> nat \<Rightarrow> canvas" where
  "setFont pdf name sz = pdf\<lparr>code := code pdf @ [SetFont name sz]\<rparr>"

definition drawString :: "canvas \<Rightarrow> int \<Rightarrow> int \<Rightarrow> string \<Rightarrow> canvas" where
  "drawString pdf x y txt = pdf\<lparr>code := code pdf @ [DrawString x y txt]\<rparr>"

definition showPage :: "canvas \<Rightarrow> canvas" where
  "showPage pdf = \<lparr>pages = pages pdf @ [code pdf], code = []\<rparr>"

definition save :: "canvas \<Rightarrow> canvas" where
  "save pdf = (if code pdf = [] then pdf else showPage pdf)"

definition height :: int where
  "height = 792"

definition py_linebreak :: "char \<Rightarrow> bool" where
  \<comment> \<open>the line boundaries of \<^verbatim>\<open>str.splitlines\<close>: LF, VT, FF, CR, FS, GS, RS, NEL\<close>
  "py_linebreak c =
     (let n = (of_char c :: nat) in (10 \<le> n \<and> n \<le> 13) \<or> (28 \<le> n \<and> n \<le> 30) \<or> n = 133)"

fun py_splitlines_aux :: "bool \<Rightarrow> string \<Rightarrow> string \<Rightarrow> string list" where
  \<comment> \<open>the flag: the last character was a CR, so that a LF now belongs to the same boundary\<close>
  "py_splitlines_aux cr acc [] = (if acc = [] then [] else [acc])"
| "py_splitlines_aux cr acc (c # cs) =
     (if cr \<and> c = CHR 0x0A then py_splitlines_aux False acc cs
      else if py_linebreak c then acc # py_splitlines_aux (c = CHR 0x0D) [] cs
      else py_splitlines_aux False (acc @ [c]) cs)"

definition py_splitlines :: "string \<Rightarrow> string list" where
  "py_splitlines s = py_splitlines_aux False [] s"

fun draw_lines :: "int \<Rightarrow> canvas \<Rightarrow> string list \<Rightarrow> int \<times> canvas" where
  \<comment> \<open>the \<^verbatim>\<open>for\<close> loop, from the cursor \<open>y\<close>\<close>
  "draw_lines y pdf [] = (y, pdf)"
| "draw_lines y pdf (line # lines) =
     (let pdf1 = drawString pdf 40 y line;
          y1 = y - 14
      in if y1 < 50 then draw_lines (height - 60) (showPage pdf1) lines
         else draw_lines y1 pdf1 lines)"

definition recipe_to_pdf_bytes :: "string \<Rightarrow> string \<Rightarrow> draw list list" where
  "recipe_to_pdf_bytes recipe_text title =
     (let y = height - 60;
          pdf = setFont new_canvas ''Helvetica-Bold'' 14;
          pdf = drawString pdf 40 y title;
          pdf = setFont pdf ''Helvetica'' 10;
          y = y - 30;
          (y, pdf) = draw_lines y pdf (py_splitlines recipe_text)
      in pages (save pdf))"

definition on_page :: "draw \<Rightarrow> bool" where
  \<comment> \<open>a text drawn between the bottom margin and the top position of the cursor\<close>
  "on_page d = (case d of DrawString x y t \<Rightarrow> 50 \<le> y \<and> y \<le> height - 60 | SetFont n sz \<Rightarrow> True)"

section \<open>Shopping list\<close>

record recipe =
  ingredients_input :: string
  cuisine :: string
  diet :: string
  servings :: int
  rec_text :: string  \<comment> \<open>the key \<^verbatim>\<open>text\<close>; a missing key reads as the empty string\<close>
  timestamp :: rat

definition py_isword :: "char \<Rightarrow> bool" where
  \<comment> \<open>the class \<^verbatim>\<open>\w\<close> of a \<^verbatim>\<open>str\<close> pattern: alphanumeric or underscore\<close>
  "py_isword c =
     (let n = (of_char c :: nat)
      in (48 \<le> n \<and> n \<le> 57) \<or> (65 \<le> n \<and> n \<le> 90) \<or> n = 95 \<or> (97 \<le> n \<and> n \<le> 122)
         \<or> n = 170 \<or> n = 178 \<or> n = 179 \<or> n = 181 \<or> n = 185 \<or> n = 186
         \<or> (188 \<le> n \<and> n \<le> 190) \<or> (192 \<le> n \<and> n \<le> 214)
         \<or> (216 \<le> n \<and> n \<le> 246) \<or> 248 \<le> n)"

definition and_at :: "char option \<Rightarrow> string \<Rightarrow> bool" where
  \<comment> \<open>\<^verbatim>\<open>\band\b\<close> matches at the head of \<open>s\<close>, the character before it being \<open>prev\<close>\<close>
  "and_at prev s =
     (prefix ''and'' s
      \<and> (case prev of None \<Rightarrow> True | Some p \<Rightarrow> \<not> py_isword p)
      \<and> (case drop 3 s of [] \<Rightarrow> True | d # _ \<Rightarrow> \<not> py_isword d))"

fun re_split :: "char option \<Rightarrow> string \<Rightarrow> string \<Rightarrow> string list" where
  \<comment> \<open>\<^verbatim>\<open>re.split(r',|\band\b', line)\<close>, scanning from the left; \<open>acc\<close> is the piece so far\<close>
  "re_split prev acc [] = [acc]"
| "re_split prev acc (c # cs) =
     (if c = CHR '','' then acc # re_split (Some c) [] cs
      else if and_at prev (c # cs) then acc # re_split (Some CHR ''d'') [] (drop 2 cs)
      else re_split (Some c) (acc @ [c]) cs)"

definition re_split_commas :: "string \<Rightarrow> string list" where
  "re_split_commas line =
     map py_strip (filter (\<lambda>p. py_strip p \<noteq> []) (re_split None [] line))"

fun py_in :: "string \<Rightarrow> string \<Rightarrow> bool" where
  \<comment> \<open>\<^verbatim>\<open>sub in s\<close>\<close>
  "py_in sub [] = (sub = [])"
| "py_in sub (c # cs) = (prefix sub (c # cs) \<or> py_in sub cs)"

type_synonym items = "(string \<times> int) list"

fun bump :: "items \<Rightarrow> string \<Rightarrow> items" where
  \<comment> \<open>\<^verbatim>\<open>items[p] = items.get(p, 0) + 1\<close>; a new key goes last, an old one keeps its place\<close>
  "bump [] p = [(p, 1)]"
| "bump ((k, n) # rest) p = (if k = p then (k, n + 1) # rest else (k, n) # bump rest p)"

definition unit_keywords :: "string list" where
  "unit_keywords =
     [''cup'', ''tsp'', ''tbsp'', ''g'', ''kg'', ''ml'', ''slice'', ''pieces'', ''pieces'', ''pinch'']"

definition name_keywords :: "string list" where
  "name_keywords =
     [''tomato'', ''onion'', ''garlic'', ''chicken'', ''rice'', ''pasta'', ''cheese'', ''egg'']"

text \<open>
  The page's code is at the top level of the script, and it calls \<^verbatim>\<open>re_split_commas\<close> by
  its global name. A \<^verbatim>\<open>def\<close> binds its name when the run of the script reaches it, and a
  call of a name that is not bound raises \<^verbatim>\<open>NameError\<close>. The loop therefore takes what the
  name is bound to when the call is made: \<open>None\<close> while the \<^verbatim>\<open>def\<close> has not been reached.
\<close>

type_synonym splitter = "string \<Rightarrow> string list"

definition scan_line :: "splitter option \<Rightarrow> items \<Rightarrow> string \<Rightarrow> py_error + items" where
  \<comment> \<open>the body of \<^verbatim>\<open>for line in lines\<close>\<close>
  "scan_line helper its line =
     (if list_ex (\<lambda>keyword. py_in keyword (py_lower line)) unit_keywords \<or> py_in '','' line
      then (case helper of
              None \<Rightarrow> Inl NameError
            | Some split \<Rightarrow>
                Inr (foldl bump its (filter (\<lambda>p. 2 < length p) (map py_strip (split line)))))
      else if list_ex (\<lambda>word. py_in word (py_lower line)) name_keywords
      then Inr (bump its (py_strip line))
      else Inr its)"

fun scan_lines :: "splitter option \<Rightarrow> items \<Rightarrow> string list \<Rightarrow> py_error + items" where
  "scan_lines helper its [] = Inr its"
| "scan_lines helper its (line # lines) =
     (case scan_line helper its line of
        Inl e \<Rightarrow> Inl e
      | Inr its' \<Rightarrow> scan_lines helper its' lines)"

definition title_of :: "recipe \<Rightarrow> py_error + string" where
  \<comment> \<open>\<^verbatim>\<open>rec.get("text","").splitlines()[0]\<close>\<close>
  "title_of rec = (case py_splitlines (rec_text rec) of [] \<Rightarrow> Inl IndexError | t # _ \<Rightarrow> Inr t)"

fun titles :: "recipe list \<Rightarrow> py_error + string list" where
  \<comment> \<open>the options of the selection box: the title of every recipe\<close>
  "titles [] = Inr []"
| "titles (rec # recs) =
     (case title_of rec of
        Inl e \<Rightarrow> Inl e
      | Inr t \<Rightarrow> (case titles recs of Inl e \<Rightarrow> Inl e | Inr ts \<Rightarrow> Inr (t # ts)))"

fun scan_recipes ::
  "splitter option \<Rightarrow> string list \<Rightarrow> items \<Rightarrow> recipe list \<Rightarrow> py_error + items" where
  \<comment> \<open>the body of \<^verbatim>\<open>for rec in recipes\<close>\<close>
  "scan_recipes helper selected its [] = Inr its"
| "scan_recipes helper selected its (rec # recs) =
     (case title_of rec of
        Inl e \<Rightarrow> Inl e
      | Inr title \<Rightarrow>
          if List.member selected title
          then (case scan_lines helper its (py_splitlines (rec_text rec)) of
                  Inl e \<Rightarrow> Inl e
                | Inr its' \<Rightarrow> scan_recipes helper selected its' recs)
          else scan_recipes helper selected its recs)"

definition build_shopping_list ::
  "splitter option \<Rightarrow> recipe list \<Rightarrow> string list \<Rightarrow> py_error + items" where
  \<comment> \<open>the button's handler: \<^verbatim>\<open>items = {}\<close>, then the loops\<close>
  "build_shopping_list helper recipes selected = scan_recipes helper selected [] recipes"

definition shopping_list_page ::
  "('b list \<Rightarrow> py_error + recipe list) \<Rightarrow> 'b store_file \<Rightarrow> string list
     \<Rightarrow> (py_error + items) \<times> 'b store_file" where
  \<comment> \<open>One run of the script on this page with the button pressed. The store is only read.
      The page's code is at lines 334 to 365 and the \<^verbatim>\<open>def\<close> of \<^verbatim>\<open>re_split_commas\<close> at
      line 419, below every page, so the name is not bound yet when the handler runs.\<close>
  "shopping_list_page loads f selected =
     (case load_saved_recipes loads f of
        Inl e \<Rightarrow> (Inl e, f)
      | Inr recipes \<Rightarrow>
          if recipes = [] then (Inr [], f)
          else (case titles recipes of
                  Inl e \<Rightarrow> (Inl e, f)
                | Inr options \<Rightarrow> (build_shopping_list None recipes selected, f)))"

section \<open>Properties of the nutrition estimator\<close>















text \<open>
  C9. For the one ingredient \<^verbatim>\<open>chicken\<close> and one serving the estimator returns 165.0
  calories: the table's entry for chicken, divided by 1 and rounded to one decimal place.
\<close>

theorem estimate_chicken:
  "estimate_nutrition [''chicken''] 1 =
     Inr \<lparr>cal = 165, protein = 31, fat = 36/10, carb = 0\<rparr> \<and>
   map_option cal (map_of NUTRITION_DB ''chicken'') = Some 165 \<and>
   py_round1 (165 / of_int (max 1 1)) = 165"
  by code_simp

section \<open>Properties of the recipe store\<close>




text \<open>
  C2. When the document exists and \<^verbatim>\<open>json.loads\<close> rejects its text, loading fails with
  the decoding error; adding a recipe and deleting one fail with the same error, and the file
  they leave behind is the file as it was: the write is never reached.
\<close>

theorem corrupt_document_untouched:
  assumes "loads doc = Inl JSONDecodeError"
  shows "load_saved_recipes loads (Some doc) = Inl JSONDecodeError \<and>
         add_recipe loads dumps encode r (Some doc) = (Inl JSONDecodeError, Some doc) \<and>
         delete_recipe loads dumps encode i (Some doc) = (Inl JSONDecodeError, Some doc)"
  using assms by (simp add: load_saved_recipes_def add_recipe_def delete_recipe_def)

theorem corrupt_document_untouched_witness:
  "bits_loads ''1x01'' = Inl JSONDecodeError \<and>
   load_saved_recipes bits_loads (Some ''1x01'') = Inl JSONDecodeError \<and>
   add_recipe bits_loads bits_dumps Inr True (Some ''1x01'') = (Inl JSONDecodeError, Some ''1x01'') \<and>
   delete_recipe bits_loads bits_dumps Inr 0 (Some ''1x01'') = (Inl JSONDecodeError, Some ''1x01'')"
proof -
  have h: "bits_loads ''1x01'' = Inl JSONDecodeError"
    by code_simp
  from corrupt_document_untouched
      [where loads = bits_loads and doc = "''1x01''" and dumps = bits_dumps
         and encode = Inr and r = True and i = 0, OF h] h
  show ?thesis
    by blast
qed







end
